theory Spec2Isabelle
  imports Complex_Main "HOL-Library.Monad_Syntax"
begin

section \<open>JavaScript arithmetic used by the tracking interfaces\<close>

text \<open>
  JavaScript numbers are modelled by their exact values: a finite number is a \<open>real\<close>,
  an integral result is an \<open>int\<close>. Rounding of the double-precision operations is not
  modelled; NaN and the infinities are kept out of the numeric functions (a
  device-orientation angle is a finite double or null, an elapsed time is a finite
  count of milliseconds).
\<close>

text \<open>\<open>Math.round\<close>: the nearest integer, a tie going towards plus infinity.\<close>

definition js_round :: "real \<Rightarrow> int" where
  "js_round x = \<lfloor>x + 1 / 2\<rfloor>"

text \<open>\<open>Math.floor\<close>.\<close>

definition js_floor :: "real \<Rightarrow> int" where
  "js_floor x = \<lfloor>x\<rfloor>"

text \<open>
  The operator \<open>%\<close> on integral operands: the remainder of the truncating division,
  with the sign of the dividend.
\<close>

definition js_rem :: "int \<Rightarrow> int \<Rightarrow> int" where
  "js_rem a b = (if a < 0 then - ((- a) mod \<bar>b\<bar>) else a mod \<bar>b\<bar>)"

text \<open>
  Number-to-string conversion of an integral value, as a template literal performs it:
  plain decimal digits with a leading minus sign (JavaScript prints integers of
  magnitude below \<open>10^21\<close> this way).
\<close>

fun digits_of_nat :: "nat \<Rightarrow> string" where
  "digits_of_nat n =
     (if n < 10 then [''0123456789'' ! n]
      else digits_of_nat (n div 10) @ [''0123456789'' ! (n mod 10)])"

definition js_string_of_int :: "int \<Rightarrow> string" where
  "js_string_of_int i =
     (if i < 0 then CHR ''-'' # digits_of_nat (nat (- i)) else digits_of_nat (nat i))"

text \<open>Reading \<open>xs[i]\<close>: \<open>undefined\<close> (here \<open>None\<close>) outside the array.\<close>

definition js_index :: "'a list \<Rightarrow> int \<Rightarrow> 'a option" where
  "js_index xs i = (if 0 \<le> i \<and> i < int (length xs) then Some (xs ! nat i) else None)"


section \<open>The two interface objects\<close>

text \<open>
  \<open>AccessibleTrackingInterface\<close> and \<open>EnhancedTrackingInterface\<close> both keep the session
  state in a field \<open>state\<close>, a JavaScript string that their constructors set to
  \<open>'idle'\<close>. Only the fields that the methods assign are kept; the references to the
  controllers are not part of the record.
\<close>

record ui =
  state :: string

text \<open>
  \<open>EnhancedTrackingInterface\<close> adds \<open>heading\<close>, the number shown by the compass, and
  \<open>isMapRotationEnabled\<close>, the rotation toggle. Its constructor:
  \<open>this.state = 'idle'; this.heading = 0; this.isMapRotationEnabled = false\<close>.
\<close>

record enhanced = ui +
  heading :: int
  isMapRotationEnabled :: bool

definition enhanced_init :: enhanced where
  "enhanced_init = \<lparr>state = ''idle'', heading = 0, isMapRotationEnabled = False\<rparr>"

text \<open>
  \<open>AccessibleTrackingInterface\<close>. Its constructor:
  \<open>this.state = 'idle'; this.announcements = []\<close>.
\<close>

record accessible = ui +
  announcements :: "string list"

definition accessible_init :: accessible where
  "accessible_init = \<lparr>state = ''idle'', announcements = []\<rparr>"


section \<open>EnhancedTrackingInterface: compass heading, cardinal direction, time format\<close>

text \<open>
  The \<open>deviceorientation\<close> listener installed by \<open>startCompassListener\<close>. The event's
  \<open>alpha\<close> is \<open>None\<close> for \<open>null\<close>. \<open>updateCompassDisplay\<close> only writes to the page.
\<close>

definition startCompassListener_handler :: "real option \<Rightarrow> enhanced \<Rightarrow> enhanced" where
  "startCompassListener_handler alpha s =
     (case alpha of
        None \<Rightarrow> s
      | Some a \<Rightarrow>
          (let newHeading = js_round (360 - a);
               newHeading = (if newHeading < 0 then newHeading + 360 else newHeading);
               newHeading = (if newHeading \<ge> 360 then newHeading - 360 else newHeading)
           in s\<lparr>heading := newHeading\<rparr>))"

text \<open>
  The handler that \<open>connectToCompassController\<close> puts in place of the compass
  controller's \<open>handleOrientationChange\<close>; the original handler it calls first belongs
  to the controller and does not touch this object.
\<close>

definition connectToCompassController_handler :: "real option \<Rightarrow> enhanced \<Rightarrow> enhanced" where
  "connectToCompassController_handler alpha s =
     (case alpha of
        None \<Rightarrow> s
      | Some a \<Rightarrow>
          (let newHeading = js_round (360 - a);
               newHeading = (if newHeading < 0 then newHeading + 360 else newHeading);
               newHeading = (if newHeading \<ge> 360 then newHeading - 360 else newHeading)
           in s\<lparr>heading := newHeading\<rparr>))"

definition directions :: "string list" where
  "directions = [''N'', ''NNE'', ''NE'', ''ENE'', ''E'', ''ESE'', ''SE'', ''SSE'',
                 ''S'', ''SSW'', ''SW'', ''WSW'', ''W'', ''WNW'', ''NW'', ''NNW'']"

text \<open>\<open>getCardinalDirection(degrees)\<close>; \<open>None\<close> is the \<open>undefined\<close> of an index outside the array.\<close>

definition cardinal_index :: "real \<Rightarrow> int" where
  "cardinal_index degrees = js_rem (js_round (degrees / 22.5)) 16"

definition getCardinalDirection :: "real \<Rightarrow> string option" where
  "getCardinalDirection degrees = js_index directions (cardinal_index degrees)"

text \<open>\<open>formatTime(milliseconds)\<close>.\<close>

definition formatTime :: "real \<Rightarrow> string" where
  "formatTime milliseconds =
     (let totalSeconds = js_floor (milliseconds / 1000);
          hours = js_floor (real_of_int totalSeconds / 3600);
          minutes = js_floor (real_of_int (js_rem totalSeconds 3600) / 60);
          seconds = js_rem totalSeconds 60
      in if hours > 0 then
           js_string_of_int hours @ ''h '' @ js_string_of_int minutes @ ''m '' @
           js_string_of_int seconds @ ''s''
         else if minutes > 0 then
           js_string_of_int minutes @ ''m '' @ js_string_of_int seconds @ ''s''
         else js_string_of_int seconds @ ''s'')"

text \<open>
  The format as the specification words it, for a given decomposition into hours,
  minutes and seconds: \<open>Hh Mm Ss\<close> when hours are positive, \<open>Mm Ss\<close> when hours are zero
  and minutes positive, \<open>Ss\<close> otherwise.
\<close>

definition spec_format_hms :: "int \<Rightarrow> int \<Rightarrow> int \<Rightarrow> string" where
  "spec_format_hms h m s =
     (if h > 0 then
        js_string_of_int h @ ''h '' @ js_string_of_int m @ ''m '' @ js_string_of_int s @ ''s''
      else if h = 0 \<and> m > 0 then js_string_of_int m @ ''m '' @ js_string_of_int s @ ''s''
      else js_string_of_int s @ ''s'')"


section \<open>JavaScript values and calls to collaborators\<close>

text \<open>
  The values a stored backup can hold: what JSON can express, and \<open>undefined\<close>.
\<close>

datatype jsval =
    JUndefined
  | JNull
  | JBool bool
  | JNum real
  | JNaN
  | JStr string
  | JArr "jsval list"
  | JObj "(string \<times> jsval) list"

text \<open>Truthiness, as \<open>if (v)\<close>, \<open>!v\<close>, \<open>v || w\<close> and \<open>v && w\<close> test it.\<close>

fun truthy :: "jsval \<Rightarrow> bool" where
  "truthy JUndefined = False"
| "truthy JNull = False"
| "truthy (JBool b) = b"
| "truthy (JNum r) = (r \<noteq> 0)"
| "truthy JNaN = False"
| "truthy (JStr s) = (s \<noteq> [])"
| "truthy (JArr xs) = True"
| "truthy (JObj fs) = True"

definition js_or :: "jsval \<Rightarrow> jsval \<Rightarrow> jsval" where
  "js_or v w = (if truthy v then v else w)"

text \<open>\<open>typeof v === 'object'\<close>.\<close>

fun typeof_object :: "jsval \<Rightarrow> bool" where
  "typeof_object JNull = True"
| "typeof_object (JArr xs) = True"
| "typeof_object (JObj fs) = True"
| "typeof_object v = False"

text \<open>
  Reading a property \<open>v.name\<close>, for the names these files read from a backup
  (\<open>backupTime\<close>, \<open>routeData\<close>, \<open>totalDistance\<close>, \<open>elapsedTime\<close>, \<open>type\<close>): an object
  gives the stored value or \<open>undefined\<close>, \<open>undefined\<close> and \<open>null\<close> throw a TypeError
  (\<open>None\<close>), any other value gives \<open>undefined\<close>.
\<close>

fun get_prop :: "jsval \<Rightarrow> string \<Rightarrow> jsval option" where
  "get_prop JUndefined name = None"
| "get_prop JNull name = None"
| "get_prop (JObj fs) name = (case map_of fs name of None \<Rightarrow> Some JUndefined | Some v \<Rightarrow> Some v)"
| "get_prop v name = Some JUndefined"

text \<open>
  \<open>v.toFixed(2)\<close>: only a number has the method, anything else throws a TypeError
  (\<open>None\<close>). The two-decimal text is not rendered; the number itself stands for it.
\<close>

fun toFixed :: "jsval \<Rightarrow> jsval option" where
  "toFixed (JNum r) = Some (JNum r)"
| "toFixed JNaN = Some JNaN"
| "toFixed v = None"

text \<open>
  \<open>v.filter(pred).length\<close> for a predicate that cannot throw: a TypeError (\<open>None\<close>)
  unless \<open>v\<close> is an array.
\<close>

fun filter_length :: "(jsval \<Rightarrow> bool) \<Rightarrow> jsval \<Rightarrow> nat option" where
  "filter_length pred (JArr xs) = Some (length (filter pred xs))"
| "filter_length pred v = None"

text \<open>The predicate \<open>p => p && p.type === t\<close> of \<open>showRestoreDialog\<close>.\<close>

definition has_type :: "string \<Rightarrow> jsval \<Rightarrow> bool" where
  "has_type t p = (truthy p \<and> get_prop p ''type'' = Some (JStr t))"

text \<open>
  \<open>v.filter(p => p.type === t).length\<close> of \<open>checkForBackupRoute\<close>: the predicate throws
  at the first element that is \<open>null\<close> or \<open>undefined\<close>.
\<close>

fun count_type_strict :: "string \<Rightarrow> jsval list \<Rightarrow> nat option" where
  "count_type_strict t [] = Some 0"
| "count_type_strict t (p # ps) =
     (case get_prop p ''type'' of
        None \<Rightarrow> None
      | Some v \<Rightarrow>
          (case count_type_strict t ps of
             None \<Rightarrow> None
           | Some n \<Rightarrow> Some (if v = JStr t then Suc n else n)))"

fun filter_length_strict :: "string \<Rightarrow> jsval \<Rightarrow> nat option" where
  "filter_length_strict t (JArr xs) = count_type_strict t xs"
| "filter_length_strict t v = None"

text \<open>
  \<open>TrackingController\<close>, \<open>AppState\<close> and \<open>TimerController\<close> are imported from other
  modules. A call to one of their methods is known here by what comes back: a value
  (for a success indicator, its truthiness) or an exception; an awaited promise that
  rejects counts as an exception. What is thrown is an \<open>Error\<close> object, whose
  \<open>message\<close> a \<open>catch\<close> block can read. The collaborators hold no reference to the
  interface objects and assign none of their fields. The same type tells how a method
  of the interfaces ends: \<open>Returned ()\<close> is a return of \<open>undefined\<close> (for an \<open>async\<close>
  method, a promise resolved with it), \<open>Threw\<close> an exception that leaves the method
  (a rejected promise).
\<close>

datatype 'a call_result = Returned 'a | Threw

text \<open>
  What a method does to the outside, in order: calls to the collaborators, dialogs,
  messages and updates of the page (which do not throw). Console output is left out.
  The text of a dialog is kept as the numbers it shows: the distance (before
  formatting) and the counts of GPS points, photos and notes. \<open>Later\<close> marks what a
  timer does afterwards.
\<close>

datatype prompt =
    RestorePrompt jsval nat nat nat
  | DiscardPrompt jsval nat nat nat
  | BackupFoundPrompt nat nat nat

datatype effect =
    Tracking_start
  | Tracking_togglePause
  | Tracking_stop
  | State_checkForUnsavedRoute
  | State_restoreFromBackup jsval
  | State_clearRouteBackup
  | Timer_setElapsedTime jsval
  | Confirm prompt
  | Alert string
  | Announce string
  | ShowSuccessMessage string
  | ShowError string
  | UpdateAccessibleUI
  | UpdatePlayPauseButton string
  | EnableSaveButton
  | UpdateSaveButton string
  | Later effect

text \<open>The object after a method ran, what the method did, and how it ended.\<close>

record ('i, 'r) run =
  iface :: 'i
  effects :: "effect list"
  result :: "'r call_result"


section \<open>AccessibleTrackingInterface: session control\<close>

text \<open>
  \<open>handleStartClick\<close>. The argument is the outcome of the one controller call the
  method makes (\<open>await tracking.start()\<close> when idle, \<open>tracking.togglePause()\<close> when
  paused); the returned value is not looked at, an exception is caught and announced.
\<close>

definition handleStartClick :: "bool call_result \<Rightarrow> accessible \<Rightarrow> (accessible, unit) run" where
  "handleStartClick call s =
     (if state s = ''idle'' then
        (case call of
           Returned ok \<Rightarrow>
             \<lparr>iface = s\<lparr>state := ''tracking''\<rparr>,
              effects = [Tracking_start, Announce ''Tracking started'', UpdateAccessibleUI],
              result = Returned ()\<rparr>
         | Threw \<Rightarrow>
             \<lparr>iface = s,
              effects = [Tracking_start, Announce ''Failed to start tracking''],
              result = Returned ()\<rparr>)
      else if state s = ''paused'' then
        (case call of
           Returned ok \<Rightarrow>
             \<lparr>iface = s\<lparr>state := ''tracking''\<rparr>,
              effects = [Tracking_togglePause, Announce ''Tracking resumed'', UpdateAccessibleUI],
              result = Returned ()\<rparr>
         | Threw \<Rightarrow>
             \<lparr>iface = s,
              effects = [Tracking_togglePause, Announce ''Failed to start tracking''],
              result = Returned ()\<rparr>)
      else \<lparr>iface = s, effects = [UpdateAccessibleUI], result = Returned ()\<rparr>)"


text \<open>\<open>handleStopClick\<close>.\<close>

definition handleStopClick :: "bool call_result \<Rightarrow> accessible \<Rightarrow> (accessible, unit) run" where
  "handleStopClick call s =
     (if state s = ''tracking'' \<or> state s = ''paused'' then
        (case call of
           Returned ok \<Rightarrow>
             \<lparr>iface = s\<lparr>state := ''idle''\<rparr>,
              effects = [Tracking_stop, Announce ''Tracking stopped'', UpdateAccessibleUI],
              result = Returned ()\<rparr>
         | Threw \<Rightarrow> \<lparr>iface = s, effects = [Tracking_stop], result = Threw\<rparr>)
      else \<lparr>iface = s, effects = [], result = Returned ()\<rparr>)"





section \<open>EnhancedTrackingInterface: session control\<close>

text \<open>
  \<open>handlePlayPause\<close>: the state picks the controller call, the state changes only when
  the call returns a truthy value; an exception is caught and shown in an alert.
\<close>

definition handlePlayPause :: "bool call_result \<Rightarrow> enhanced \<Rightarrow> (enhanced, unit) run" where
  "handlePlayPause call s =
     (if state s = ''idle'' then
        (case call of
           Returned startSuccess \<Rightarrow>
             (if startSuccess then
                \<lparr>iface = s\<lparr>state := ''tracking''\<rparr>,
                 effects = [Tracking_start, UpdatePlayPauseButton ''tracking'', EnableSaveButton,
                            Announce ''GPS tracking started''],
                 result = Returned ()\<rparr>
              else \<lparr>iface = s, effects = [Tracking_start], result = Returned ()\<rparr>)
         | Threw \<Rightarrow>
             \<lparr>iface = s, effects = [Tracking_start, Alert ''Failed to start/pause tracking''],
              result = Returned ()\<rparr>)
      else if state s = ''tracking'' then
        (case call of
           Returned pauseSuccess \<Rightarrow>
             (if pauseSuccess then
                \<lparr>iface = s\<lparr>state := ''paused''\<rparr>,
                 effects = [Tracking_togglePause, UpdatePlayPauseButton ''paused'',
                            Announce ''GPS tracking paused''],
                 result = Returned ()\<rparr>
              else \<lparr>iface = s, effects = [Tracking_togglePause], result = Returned ()\<rparr>)
         | Threw \<Rightarrow>
             \<lparr>iface = s, effects = [Tracking_togglePause, Alert ''Failed to start/pause tracking''],
              result = Returned ()\<rparr>)
      else if state s = ''paused'' then
        (case call of
           Returned resumeSuccess \<Rightarrow>
             (if resumeSuccess then
                \<lparr>iface = s\<lparr>state := ''tracking''\<rparr>,
                 effects = [Tracking_togglePause, UpdatePlayPauseButton ''tracking'',
                            Announce ''GPS tracking resumed''],
                 result = Returned ()\<rparr>
              else \<lparr>iface = s, effects = [Tracking_togglePause], result = Returned ()\<rparr>)
         | Threw \<Rightarrow>
             \<lparr>iface = s, effects = [Tracking_togglePause, Alert ''Failed to start/pause tracking''],
              result = Returned ()\<rparr>)
      else \<lparr>iface = s, effects = [], result = Returned ()\<rparr>)"

text \<open>\<open>handleSave\<close>; the save button is reset two seconds later.\<close>

definition handleSave :: "bool call_result \<Rightarrow> enhanced \<Rightarrow> (enhanced, unit) run" where
  "handleSave call s =
     (if state s = ''tracking'' \<or> state s = ''paused'' then
        (case call of
           Returned stopSuccess \<Rightarrow>
             (if stopSuccess then
                \<lparr>iface = s\<lparr>state := ''idle''\<rparr>,
                 effects = [Tracking_stop, UpdatePlayPauseButton ''idle'', UpdateSaveButton ''saving'',
                            Announce ''Tracking stopped, route saved'',
                            Later (UpdateSaveButton ''idle'')],
                 result = Returned ()\<rparr>
              else \<lparr>iface = s, effects = [Tracking_stop], result = Returned ()\<rparr>)
         | Threw \<Rightarrow>
             \<lparr>iface = s, effects = [Tracking_stop, Alert ''Failed to save route''],
              result = Returned ()\<rparr>)
      else \<lparr>iface = s, effects = [], result = Returned ()\<rparr>)"





section \<open>Restoring an unsaved route\<close>

text \<open>
  What the user and \<open>AppState\<close> answer during one run of a restore flow:
  \<open>shouldRestore\<close> and \<open>confirmDiscard\<close> are the answers to the two \<open>confirm\<close>
  dialogs, the others the outcomes of \<open>restoreFromBackup\<close>, of \<open>clearRouteBackup\<close>
  called in the \<open>try\<close> block, and of \<open>clearRouteBackup\<close> called in the \<open>catch\<close> block
  of \<open>showRestoreDialog\<close>.
\<close>

record dialog_env =
  shouldRestore :: bool
  confirmDiscard :: bool
  restoreFromBackup_outcome :: "bool call_result"
  clearRouteBackup_outcome :: "unit call_result"
  clearRouteBackup_in_catch :: "unit call_result"

text \<open>
  The numbers \<open>showRestoreDialog\<close> computes for its messages: the distance and the
  counts of location points, photos and notes. \<open>None\<close> is a TypeError thrown on the
  way. (\<open>new Date(...).toLocaleString()\<close> does not throw on these values.)
\<close>

definition restore_summary :: "jsval \<Rightarrow> (jsval \<times> nat \<times> nat \<times> nat) option" where
  "restore_summary backupData = do {
     backupTime \<leftarrow> get_prop backupData ''backupTime'';
     rd \<leftarrow> get_prop backupData ''routeData'';
     let routeData = js_or rd (JArr []);
     td \<leftarrow> get_prop backupData ''totalDistance'';
     distance \<leftarrow> toFixed (js_or td (JNum 0));
     locationPoints \<leftarrow> filter_length (has_type ''location'') routeData;
     photos \<leftarrow> filter_length (has_type ''photo'') routeData;
     notes \<leftarrow> filter_length (has_type ''text'') routeData;
     Some (distance, locationPoints, photos, notes)
   }"

text \<open>
  The \<open>try\<close> block of \<open>showRestoreDialog\<close> after the check of the argument: what it
  did, and the value it resolved the promise with, or \<open>None\<close> when an exception
  sent it to the \<open>catch\<close> block.
\<close>

definition restore_decision :: "dialog_env \<Rightarrow> jsval \<Rightarrow> effect list \<times> bool option" where
  "restore_decision env backupData =
     (case restore_summary backupData of
        None \<Rightarrow> ([], None)
      | Some (distance, locationPoints, photos, notes) \<Rightarrow>
          (let ask = Confirm (RestorePrompt distance locationPoints photos notes);
               ask_again = Confirm (DiscardPrompt distance locationPoints photos notes)
           in if shouldRestore env then
                (case restoreFromBackup_outcome env of
                   Threw \<Rightarrow> ([ask, State_restoreFromBackup backupData], None)
                 | Returned success \<Rightarrow>
                     (if success then
                        ([ask, State_restoreFromBackup backupData,
                          ShowSuccessMessage ''Route restored!'',
                          Announce ''Route restored successfully.''], Some True)
                      else
                        (case clearRouteBackup_outcome env of
                           Returned u \<Rightarrow>
                             ([ask, State_restoreFromBackup backupData,
                               ShowError ''Failed to restore route. Starting fresh.'',
                               State_clearRouteBackup], Some False)
                         | Threw \<Rightarrow>
                             ([ask, State_restoreFromBackup backupData,
                               ShowError ''Failed to restore route. Starting fresh.'',
                               State_clearRouteBackup], None))))
              else if confirmDiscard env then
                (case clearRouteBackup_outcome env of
                   Returned u \<Rightarrow>
                     ([ask, ask_again, State_clearRouteBackup,
                       ShowSuccessMessage ''Route data discarded. Starting fresh.''], Some False)
                 | Threw \<Rightarrow> ([ask, ask_again, State_clearRouteBackup], None))
              else
                (case restoreFromBackup_outcome env of
                   Threw \<Rightarrow> ([ask, ask_again, State_restoreFromBackup backupData], None)
                 | Returned success \<Rightarrow>
                     (if success then
                        ([ask, ask_again, State_restoreFromBackup backupData,
                          ShowSuccessMessage ''Route restored!''], Some True)
                      else
                        ([ask, ask_again, State_restoreFromBackup backupData,
                          ShowError ''Failed to restore route.''], Some False)))))"

text \<open>
  \<open>showRestoreDialog(backupData)\<close>. The result is the value the promise resolves with;
  \<open>Threw\<close> is a rejected promise, which happens when \<open>clearRouteBackup\<close> throws inside
  the \<open>catch\<close> block, the promise not being resolved yet. No field of the object is
  assigned.
\<close>

definition showRestoreDialog :: "dialog_env \<Rightarrow> jsval \<Rightarrow> accessible \<Rightarrow> (accessible, bool) run" where
  "showRestoreDialog env backupData s =
     (if \<not> truthy backupData \<or> \<not> typeof_object backupData then
        \<lparr>iface = s, effects = [], result = Returned False\<rparr>
      else
        (case restore_decision env backupData of
           (effs, Some resolved) \<Rightarrow> \<lparr>iface = s, effects = effs, result = Returned resolved\<rparr>
         | (effs, None) \<Rightarrow>
             \<lparr>iface = s,
              effects = effs @ [ShowError ''Error during route restoration.'', State_clearRouteBackup],
              result = (case clearRouteBackup_in_catch env of
                          Returned u \<Rightarrow> Returned False
                        | Threw \<Rightarrow> Threw)\<rparr>))"

text \<open>
  \<open>AccessNatureTrackerV2.handleUnsavedRoute\<close>, run once by \<open>initialize\<close> after the
  interface object was built. The second argument is the outcome of
  \<open>checkForUnsavedRoute\<close>. Every exception, a rejected dialog included, ends in the
  \<open>catch\<close> block, which only logs.
\<close>

definition handleUnsavedRoute ::
  "dialog_env \<Rightarrow> jsval call_result \<Rightarrow> accessible \<Rightarrow> (accessible, unit) run" where
  "handleUnsavedRoute env unsaved s =
     (case unsaved of
        Threw \<Rightarrow> \<lparr>iface = s, effects = [State_checkForUnsavedRoute], result = Returned ()\<rparr>
      | Returned backupData \<Rightarrow>
          (if truthy backupData then
             (let dialog = showRestoreDialog env backupData s
              in \<lparr>iface = iface dialog,
                  effects = State_checkForUnsavedRoute # effects dialog,
                  result = Returned ()\<rparr>)
           else \<lparr>iface = s, effects = [State_checkForUnsavedRoute], result = Returned ()\<rparr>))"

text \<open>
  The counts \<open>checkForBackupRoute\<close> computes for its message; \<open>None\<close> is a TypeError.
  The optional call \<open>backup.totalDistance?.toFixed(2)\<close> is skipped for \<open>undefined\<close> and
  \<open>null\<close>; \<open>formatTime\<close> does not throw.
\<close>

definition backup_summary :: "jsval \<Rightarrow> (nat \<times> nat \<times> nat) option" where
  "backup_summary backup = do {
     routeData \<leftarrow> get_prop backup ''routeData'';
     locations \<leftarrow> filter_length_strict ''location'' routeData;
     photos \<leftarrow> filter_length_strict ''photo'' routeData;
     notes \<leftarrow> filter_length_strict ''text'' routeData;
     td \<leftarrow> get_prop backup ''totalDistance'';
     distance \<leftarrow> (if td = JUndefined \<or> td = JNull then Some JUndefined else toFixed td);
     Some (locations, photos, notes)
   }"

text \<open>
  \<open>EnhancedTrackingInterface.checkForBackupRoute\<close>. The second argument is the outcome
  of \<open>checkForUnsavedRoute\<close>. Every exception ends in the \<open>catch\<close> block, which only
  logs; an exception of \<open>setElapsedTime\<close> or \<open>clearRouteBackup\<close>, the last call of its
  branch, therefore changes nothing that is recorded here. No field of the object is
  assigned.
\<close>

definition checkForBackupRoute ::
  "dialog_env \<Rightarrow> jsval call_result \<Rightarrow> enhanced \<Rightarrow> (enhanced, unit) run" where
  "checkForBackupRoute env unsaved s =
     (case unsaved of
        Threw \<Rightarrow> \<lparr>iface = s, effects = [State_checkForUnsavedRoute], result = Returned ()\<rparr>
      | Returned backup \<Rightarrow>
          (if \<not> truthy backup then
             \<lparr>iface = s, effects = [State_checkForUnsavedRoute], result = Returned ()\<rparr>
           else
             (case backup_summary backup of
                None \<Rightarrow> \<lparr>iface = s, effects = [State_checkForUnsavedRoute], result = Returned ()\<rparr>
              | Some (locations, photos, notes) \<Rightarrow>
                  (let ask = Confirm (BackupFoundPrompt locations photos notes)
                   in if shouldRestore env then
                        (case restoreFromBackup_outcome env of
                           Threw \<Rightarrow>
                             \<lparr>iface = s,
                              effects = [State_checkForUnsavedRoute, ask, State_restoreFromBackup backup],
                              result = Returned ()\<rparr>
                         | Returned restored \<Rightarrow>
                             (if restored then
                                \<lparr>iface = s,
                                 effects =
                                   [State_checkForUnsavedRoute, ask, State_restoreFromBackup backup,
                                    Announce ''Route backup restored successfully''] @
                                   (case get_prop backup ''elapsedTime'' of
                                      None \<Rightarrow> []
                                    | Some elapsedTime \<Rightarrow>
                                        (if truthy elapsedTime then [Timer_setElapsedTime elapsedTime]
                                         else [])),
                                 result = Returned ()\<rparr>
                              else
                                \<lparr>iface = s,
                                 effects = [State_checkForUnsavedRoute, ask, State_restoreFromBackup backup],
                                 result = Returned ()\<rparr>))
                      else
                        \<lparr>iface = s,
                         effects = [State_checkForUnsavedRoute, ask, State_clearRouteBackup],
                         result = Returned ()\<rparr>))))"


section \<open>Handlers that wait for the controller\<close>












section \<open>The state machine of the specification\<close>










section \<open>Example inputs\<close>

text \<open>A stored backup with two location points and a photo, 2.34 km, 90 seconds.\<close>

definition example_backup :: jsval where
  "example_backup =
     JObj [(''routeData'',
             JArr [JObj [(''type'', JStr ''location'')], JObj [(''type'', JStr ''photo'')],
                   JObj [(''type'', JStr ''location'')]]),
           (''totalDistance'', JNum 2.34),
           (''elapsedTime'', JNum 90000)]"

text \<open>
  Answers to the two dialogs and the outcome of \<open>restoreFromBackup\<close>, with a
  \<open>clearRouteBackup\<close> that works.
\<close>

definition example_env :: "bool \<Rightarrow> bool \<Rightarrow> bool call_result \<Rightarrow> dialog_env" where
  "example_env accept discard restored =
     \<lparr>shouldRestore = accept, confirmDiscard = discard, restoreFromBackup_outcome = restored,
      clearRouteBackup_outcome = Returned (), clearRouteBackup_in_catch = Returned ()\<rparr>"


section \<open>Arithmetic facts\<close>

lemma js_round_mono: "x \<le> y \<Longrightarrow> js_round x \<le> js_round y"
  unfolding js_round_def by (rule floor_mono) simp

lemma js_round_of_int: "js_round (of_int n) = n"
  unfolding js_round_def by linarith

lemma js_round_range:
  assumes "of_int lo \<le> x" and "x \<le> of_int hi"
  shows "lo \<le> js_round x \<and> js_round x \<le> hi"
proof -
  have "js_round (of_int lo) \<le> js_round x" using assms(1) by (rule js_round_mono)
  moreover have "js_round x \<le> js_round (of_int hi)" using assms(2) by (rule js_round_mono)
  ultimately show ?thesis by (simp add: js_round_of_int)
qed

lemma js_rem_nonneg: "0 \<le> a \<Longrightarrow> 0 < b \<Longrightarrow> js_rem a b = a mod b"
  by (simp add: js_rem_def)

lemma js_floor_div_int: "js_floor (real_of_int a / real_of_int b) = a div b"
  unfolding js_floor_def by (rule floor_divide_of_int_eq)

lemma hms_sum: "(t::int) div 3600 * 3600 + (t mod 3600) div 60 * 60 + t mod 60 = t"
proof -
  have "t mod 3600 mod 60 = t mod 60"
    by (rule mod_mod_cancel) simp
  then have "(t mod 3600) div 60 * 60 + t mod 60 = t mod 3600"
    by (metis div_mult_mod_eq)
  then show ?thesis by (metis add.assoc div_mult_mod_eq)
qed

lemma heading_normalised:
  fixes a :: real
  assumes "0 \<le> a" and "a \<le> 360"
  defines "h0 \<equiv> js_round (360 - a)"
  defines "h1 \<equiv> (if h0 < 0 then h0 + 360 else h0)"
  defines "h2 \<equiv> (if h1 \<ge> 360 then h1 - 360 else h1)"
  shows "0 \<le> h2 \<and> h2 < 360"
proof -
  have "of_int 0 \<le> 360 - a" and "360 - a \<le> of_int 360" using assms(1,2) by simp_all
  then have "0 \<le> h0 \<and> h0 \<le> 360" unfolding h0_def by (rule js_round_range)
  then show ?thesis unfolding h2_def h1_def by auto
qed

lemma cardinal_index_range:
  assumes "0 \<le> d" and "d \<le> 360"
  shows "0 \<le> cardinal_index d \<and> cardinal_index d < 16"
proof -
  have "of_int 0 \<le> d / 22.5" and "d / 22.5 \<le> of_int 16" using assms by simp_all
  then have r: "0 \<le> js_round (d / 22.5) \<and> js_round (d / 22.5) \<le> 16" by (rule js_round_range)
  then have "cardinal_index d = js_round (d / 22.5) mod 16"
    unfolding cardinal_index_def by (simp add: js_rem_nonneg)
  then show ?thesis by simp
qed

lemma length_directions: "length directions = 16"
  by (simp add: directions_def)


section \<open>Compass heading and cardinal direction\<close>

text \<open>
  Claim C8. After a device-orientation event whose alpha is a number between 0 and 360
  (both included), the heading field is an integer from 0 up to 359, whichever of the
  two listeners processed the event; every other field is left as it was. An event
  with a null alpha changes nothing.
\<close>

theorem heading_in_range_after_orientation_event:
  assumes "0 \<le> a" and "a \<le> 360"
  shows "0 \<le> heading (startCompassListener_handler (Some a) s)
       \<and> heading (startCompassListener_handler (Some a) s) < 360
       \<and> 0 \<le> heading (connectToCompassController_handler (Some a) s)
       \<and> heading (connectToCompassController_handler (Some a) s) < 360
       \<and> state (startCompassListener_handler (Some a) s) = state s
       \<and> state (connectToCompassController_handler (Some a) s) = state s
       \<and> startCompassListener_handler None s = s
       \<and> connectToCompassController_handler None s = s"
  using heading_normalised [OF assms]
  by (simp add: startCompassListener_handler_def connectToCompassController_handler_def Let_def)

theorem heading_in_range_witness:
  "(0::real) \<le> 0.4 \<and> (0.4::real) \<le> 360
   \<and> heading (startCompassListener_handler (Some 0.4) enhanced_init) = 0
   \<and> 0 \<le> heading (connectToCompassController_handler (Some 0.4) enhanced_init)
   \<and> heading (connectToCompassController_handler (Some 0.4) enhanced_init) < 360
   \<and> heading (startCompassListener_handler (Some 90.5) enhanced_init) = 270
   \<and> heading (startCompassListener_handler (Some 360) enhanced_init) = 0"
  using heading_in_range_after_orientation_event [of "0.4" enhanced_init]
  by (simp add: startCompassListener_handler_def connectToCompassController_handler_def
      Let_def js_round_def enhanced_init_def)

text \<open>
  Claim C9. For every degree value from 0 to 360 (both included) the index
  \<open>Math.round(degrees / 22.5) % 16\<close> lies within the sixteen-element array, so
  \<open>getCardinalDirection\<close> returns one of the sixteen direction strings and never
  \<open>undefined\<close>.
\<close>

theorem getCardinalDirection_defined:
  assumes "0 \<le> d" and "d \<le> 360"
  shows "length directions = 16
       \<and> 0 \<le> cardinal_index d \<and> cardinal_index d < 16
       \<and> (\<exists>name. getCardinalDirection d = Some name \<and> name \<in> set directions)"
proof -
  from cardinal_index_range [OF assms]
  have r: "0 \<le> cardinal_index d" "cardinal_index d < 16" by simp_all
  then have "nat (cardinal_index d) < length directions"
    by (simp add: length_directions)
  then have "directions ! nat (cardinal_index d) \<in> set directions" by (rule nth_mem)
  moreover have "getCardinalDirection d = Some (directions ! nat (cardinal_index d))"
    using r by (simp add: getCardinalDirection_def js_index_def length_directions)
  ultimately show ?thesis using r by (simp add: length_directions)
qed

theorem getCardinalDirection_witness:
  "(0::real) \<le> 359.5 \<and> (359.5::real) \<le> 360
   \<and> cardinal_index 359.5 = 0
   \<and> getCardinalDirection 359.5 = Some ''N''
   \<and> (\<exists>name. getCardinalDirection 359.5 = Some name \<and> name \<in> set directions)"
  using getCardinalDirection_defined [of "359.5"]
  by (simp add: getCardinalDirection_def cardinal_index_def js_index_def js_round_def
      js_rem_def directions_def)


section \<open>Time format\<close>

text \<open>
  Claim C10. For every non-negative number of milliseconds, \<open>formatTime\<close> returns the
  specified format of the decomposition of \<open>floor(milliseconds / 1000)\<close> seconds into
  hours, minutes below 60 and seconds below 60, the three adding up to the total.
\<close>

theorem formatTime_decomposition:
  assumes "0 \<le> ms"
  shows "\<exists>h m s. 0 \<le> h \<and> 0 \<le> m \<and> m < 60 \<and> 0 \<le> s \<and> s < 60
           \<and> h * 3600 + m * 60 + s = \<lfloor>ms / 1000\<rfloor>
           \<and> formatTime ms = spec_format_hms h m s"
proof -
  define t where "t = \<lfloor>ms / 1000\<rfloor>"
  define h where "h = t div 3600"
  define m where "m = (t mod 3600) div 60"
  define s where "s = t mod 60"
  have t0: "0 \<le> t" using assms by (simp add: t_def)
  have h0: "0 \<le> h" using t0 by (simp add: h_def)
  have m0: "0 \<le> m" by (simp add: m_def)
  have m60: "m < 60" by (simp add: m_def div_less_iff_less_mult)
  have s0: "0 \<le> s" and s60: "s < 60" by (simp_all add: s_def)
  have sum: "h * 3600 + m * 60 + s = t"
    unfolding h_def m_def s_def by (rule hms_sum)
  have r1: "js_rem t 3600 = t mod 3600" and r2: "js_rem t 60 = t mod 60"
    using t0 by (simp_all add: js_rem_nonneg)
  have "formatTime ms = spec_format_hms h m s"
    using h0 m0
    by (simp add: formatTime_def spec_format_hms_def Let_def js_floor_div_int [of _ 3600, simplified]
        js_floor_div_int [of _ 60, simplified] r1 r2 js_floor_def [of "ms / 1000"]
        t_def [symmetric] h_def [symmetric] m_def [symmetric] s_def [symmetric])
  with h0 m0 m60 s0 s60 sum show ?thesis unfolding t_def by blast
qed

theorem formatTime_witness:
  "(0::real) \<le> 3723500
   \<and> formatTime 3723500 = ''1h 2m 3s''
   \<and> (\<exists>h m s. 0 \<le> h \<and> 0 \<le> m \<and> m < 60 \<and> 0 \<le> s \<and> s < 60
        \<and> h * 3600 + m * 60 + s = \<lfloor>(3723500::real) / 1000\<rfloor>
        \<and> formatTime 3723500 = spec_format_hms h m s)"
proof -
  have "formatTime 3723500 = ''1h 2m 3s''"
    by (simp add: formatTime_def js_floor_def js_rem_def js_string_of_int_def Let_def)
  then show ?thesis using formatTime_decomposition [of 3723500] by simp
qed


section \<open>Session control\<close>


















text \<open>
  Claim C3, as stated, fails twice. \<open>AccessibleTrackingInterface.handleStartClick\<close> does
  not look at what \<open>tracking.start()\<close> returns: from \<open>idle\<close>, a falsy return still sets
  the state to \<open>tracking\<close>. And \<open>EnhancedTrackingInterface.handlePlayPause\<close> ends the same
  way after a failed start as after a successful one: it returns \<open>undefined\<close>.
\<close>

theorem start_failure_counterexample:
  "state accessible_init = ''idle''
   \<and> state (iface (handleStartClick (Returned False) accessible_init)) = ''tracking''
   \<and> state (iface (handleStartClick (Returned False) accessible_init)) \<noteq> ''idle''
   \<and> result (handlePlayPause (Returned False) enhanced_init) =
       result (handlePlayPause (Returned True) enhanced_init)"
  by (simp add: handleStartClick_def handlePlayPause_def accessible_init_def enhanced_init_def)

text \<open>
  Claim C3, amended. In \<open>EnhancedTrackingInterface.handlePlayPause\<close>, a start from
  \<open>idle\<close> that returns a falsy indicator leaves the object exactly as it was and does
  nothing else than the call. A start that throws leaves the object as it was in both
  interfaces. Neither handler gives its caller a success flag: whatever the outcome of
  the call, it returns \<open>undefined\<close>.
\<close>

theorem start_failure_leaves_idle:
  assumes "state s = ''idle''" and "state t = ''idle''"
  shows "handlePlayPause (Returned False) t =
           \<lparr>iface = t, effects = [Tracking_start], result = Returned ()\<rparr>
       \<and> iface (handlePlayPause Threw t) = t
       \<and> iface (handleStartClick Threw s) = s
       \<and> result (handlePlayPause call t) = Returned ()
       \<and> result (handleStartClick call s) = Returned ()"
  using assms
  by (cases call) (simp_all add: handlePlayPause_def handleStartClick_def)

theorem start_failure_leaves_idle_witness:
  "state accessible_init = ''idle'' \<and> state enhanced_init = ''idle''
   \<and> handlePlayPause (Returned False) enhanced_init =
       \<lparr>iface = enhanced_init, effects = [Tracking_start], result = Returned ()\<rparr>
   \<and> state (iface (handlePlayPause (Returned False) enhanced_init)) = ''idle''
   \<and> iface (handleStartClick Threw accessible_init) = accessible_init
   \<and> result (handlePlayPause (Returned True) enhanced_init) = Returned ()"
  using start_failure_leaves_idle [of accessible_init enhanced_init "Returned True"]
  by (simp add: accessible_init_def enhanced_init_def)

text \<open>
  Claim C7, as stated, fails on the failure signal: a stop in state \<open>idle\<close> ends as a
  stop that succeeded does, with a return of \<open>undefined\<close> and no exception, in both
  interfaces.
\<close>

theorem stop_when_idle_counterexample:
  "state accessible_init = ''idle''
   \<and> result (handleStopClick (Returned True) accessible_init) =
       result (handleStopClick (Returned True) (accessible_init\<lparr>state := ''tracking''\<rparr>))
   \<and> state (iface (handleStopClick (Returned True) (accessible_init\<lparr>state := ''tracking''\<rparr>))) = ''idle''
   \<and> result (handleSave (Returned True) enhanced_init) =
       result (handleSave (Returned True) (enhanced_init\<lparr>state := ''tracking''\<rparr>))
   \<and> state (iface (handleSave (Returned True) (enhanced_init\<lparr>state := ''tracking''\<rparr>))) = ''idle''"
  by (simp add: handleStopClick_def handleSave_def accessible_init_def enhanced_init_def)

text \<open>
  Claim C7, amended. A stop in state \<open>idle\<close> is a silent no-op in both interfaces: the
  object stays as it was, in state \<open>idle\<close>; the controller's \<open>stop\<close> is not called, so
  nothing is finalised; and the handler returns \<open>undefined\<close>, raising no error.
\<close>

theorem stop_when_idle_is_noop:
  assumes "state s = ''idle''" and "state t = ''idle''"
  shows "handleStopClick call s = \<lparr>iface = s, effects = [], result = Returned ()\<rparr>
       \<and> handleSave call t = \<lparr>iface = t, effects = [], result = Returned ()\<rparr>"
  using assms by (simp add: handleStopClick_def handleSave_def)

theorem stop_when_idle_witness:
  "state accessible_init = ''idle'' \<and> state enhanced_init = ''idle''
   \<and> handleStopClick (Returned True) accessible_init =
       \<lparr>iface = accessible_init, effects = [], result = Returned ()\<rparr>
   \<and> handleSave (Returned True) enhanced_init =
       \<lparr>iface = enhanced_init, effects = [], result = Returned ()\<rparr>"
  using stop_when_idle_is_noop [of accessible_init enhanced_init "Returned True"]
  by (simp add: accessible_init_def enhanced_init_def)


section \<open>Restore flows\<close>

lemma restore_summary_example:
  "restore_summary example_backup = Some (JNum 2.34, 2, 1, 0)"
  by (simp add: restore_summary_def example_backup_def js_or_def has_type_def)

lemma backup_summary_example:
  "backup_summary example_backup = Some (2, 1, 0)"
  by (simp add: backup_summary_def example_backup_def)

lemma example_backup_object: "truthy example_backup \<and> typeof_object example_backup"
  by (simp add: example_backup_def)

lemma showRestoreDialog_iface: "iface (showRestoreDialog env b s) = s"
  by (simp add: showRestoreDialog_def split: prod.splits option.splits)

lemma checkForBackupRoute_iface: "iface (checkForBackupRoute env u t) = t"
  by (simp add: checkForBackupRoute_def Let_def
      split: call_result.splits option.splits prod.splits)

lemma handleUnsavedRoute_iface: "iface (handleUnsavedRoute env u s) = s"
  by (simp add: handleUnsavedRoute_def Let_def showRestoreDialog_iface split: call_result.splits)


text \<open>
  Claim C2, as stated, fails: an accepted restore that succeeds, run on the interface
  as constructed, leaves the state \<open>idle\<close>, not \<open>paused\<close>, in both interfaces.
\<close>

theorem restore_accept_counterexample:
  "result (showRestoreDialog (example_env True False (Returned True)) example_backup
             accessible_init) = Returned True
   \<and> state (iface (showRestoreDialog (example_env True False (Returned True)) example_backup
                     accessible_init)) \<noteq> ''paused''
   \<and> State_restoreFromBackup example_backup
       \<in> set (effects (checkForBackupRoute (example_env True False (Returned True))
                         (Returned example_backup) enhanced_init))
   \<and> state (iface (checkForBackupRoute (example_env True False (Returned True))
                     (Returned example_backup) enhanced_init)) \<noteq> ''paused''"
  by (simp add: showRestoreDialog_def restore_decision_def restore_summary_example
      backup_summary_example example_backup_object checkForBackupRoute_def example_env_def
      accessible_init_def enhanced_init_def)

text \<open>
  Claim C2, amended. A restore flow assigns no field of the interface: after an
  accepted restore that succeeds, as after any other run of the flow, the state is what
  it was before, which is \<open>idle\<close> when the flow runs on the interface as constructed.
  It is never set to \<open>tracking\<close>, and not to \<open>paused\<close> either.
\<close>

theorem restore_leaves_state:
  "iface (showRestoreDialog env b s) = s
   \<and> iface (handleUnsavedRoute env u s) = s
   \<and> iface (checkForBackupRoute env u t) = t
   \<and> state (iface (showRestoreDialog env b accessible_init)) = ''idle''
   \<and> state (iface (handleUnsavedRoute env u accessible_init)) = ''idle''
   \<and> state (iface (checkForBackupRoute env u enhanced_init)) = ''idle''"
  by (simp add: showRestoreDialog_iface handleUnsavedRoute_iface checkForBackupRoute_iface
      accessible_init_def enhanced_init_def)

theorem restore_leaves_state_witness:
  "result (showRestoreDialog (example_env True False (Returned True)) example_backup
             accessible_init) = Returned True
   \<and> state (iface (showRestoreDialog (example_env True False (Returned True)) example_backup
                     accessible_init)) = ''idle''
   \<and> state (iface (checkForBackupRoute (example_env True False (Returned True))
                     (Returned example_backup) enhanced_init)) = ''idle''"
  using restore_leaves_state
    [of "example_env True False (Returned True)" example_backup accessible_init
        "Returned example_backup" enhanced_init]
  by (simp add: showRestoreDialog_def restore_decision_def restore_summary_example
      example_backup_object example_env_def accessible_init_def enhanced_init_def)

text \<open>
  Claim C4. In \<open>showRestoreDialog\<close>, when the restore offer is rejected and the discard
  is then declined, \<open>restoreFromBackup\<close> is called on the snapshot the dialog was given,
  right after the two dialogs and with no \<open>clearRouteBackup\<close> before it; when that call
  succeeds the dialog resolves with true and the backup slot is not cleared at all.
  The snapshot is one for which the dialog is shown: an object whose summary can be
  computed.
\<close>

theorem reject_then_keep_restores:
  assumes "truthy b" and "typeof_object b" and "restore_summary b = Some (d, l, p, n)"
    and "\<not> shouldRestore env" and "\<not> confirmDiscard env"
  shows "take 3 (effects (showRestoreDialog env b s)) =
           [Confirm (RestorePrompt d l p n), Confirm (DiscardPrompt d l p n),
            State_restoreFromBackup b]
       \<and> (restoreFromBackup_outcome env = Returned True \<longrightarrow>
            result (showRestoreDialog env b s) = Returned True
            \<and> State_clearRouteBackup \<notin> set (effects (showRestoreDialog env b s)))"
  using assms
  by (cases "restoreFromBackup_outcome env")
     (simp_all add: showRestoreDialog_def restore_decision_def Let_def)

theorem reject_then_keep_witness:
  "truthy example_backup \<and> typeof_object example_backup
   \<and> restore_summary example_backup = Some (JNum 2.34, 2, 1, 0)
   \<and> \<not> shouldRestore (example_env False False (Returned True))
   \<and> \<not> confirmDiscard (example_env False False (Returned True))
   \<and> restoreFromBackup_outcome (example_env False False (Returned True)) = Returned True
   \<and> take 3 (effects (showRestoreDialog (example_env False False (Returned True))
                        example_backup accessible_init)) =
       [Confirm (RestorePrompt (JNum 2.34) 2 1 0), Confirm (DiscardPrompt (JNum 2.34) 2 1 0),
        State_restoreFromBackup example_backup]
   \<and> result (showRestoreDialog (example_env False False (Returned True)) example_backup
               accessible_init) = Returned True
   \<and> State_clearRouteBackup
       \<notin> set (effects (showRestoreDialog (example_env False False (Returned True))
                         example_backup accessible_init))"
  using reject_then_keep_restores
    [of example_backup "JNum 2.34" 2 1 0 "example_env False False (Returned True)"
        accessible_init]
  by (simp add: restore_summary_example example_backup_object example_env_def)

text \<open>
  Claim C5. When the restore offer is rejected, and in \<open>showRestoreDialog\<close> the discard
  confirmed, \<open>clearRouteBackup\<close> is called right after the dialogs, \<open>restoreFromBackup\<close>
  is not called at all, and \<open>showRestoreDialog\<close> does not resolve with true;
  \<open>checkForBackupRoute\<close>, which asks once, calls \<open>clearRouteBackup\<close> and nothing else.
\<close>

theorem reject_and_discard_clears:
  assumes "\<not> shouldRestore env"
  shows "(truthy b \<and> typeof_object b \<and> restore_summary b = Some (d, l, p, n)
            \<and> confirmDiscard env \<longrightarrow>
            take 3 (effects (showRestoreDialog env b s)) =
              [Confirm (RestorePrompt d l p n), Confirm (DiscardPrompt d l p n),
               State_clearRouteBackup]
            \<and> (\<forall>x. State_restoreFromBackup x \<notin> set (effects (showRestoreDialog env b s)))
            \<and> result (showRestoreDialog env b s) \<noteq> Returned True)
       \<and> (truthy b \<and> backup_summary b = Some (l', p', n') \<longrightarrow>
            effects (checkForBackupRoute env (Returned b) t) =
              [State_checkForUnsavedRoute, Confirm (BackupFoundPrompt l' p' n'),
               State_clearRouteBackup])"
  using assms
  by (cases "clearRouteBackup_outcome env"; cases "clearRouteBackup_in_catch env")
     (simp_all add: showRestoreDialog_def restore_decision_def checkForBackupRoute_def Let_def)

theorem reject_and_discard_witness:
  "\<not> shouldRestore (example_env False True (Returned True))
   \<and> confirmDiscard (example_env False True (Returned True))
   \<and> restore_summary example_backup = Some (JNum 2.34, 2, 1, 0)
   \<and> backup_summary example_backup = Some (2, 1, 0)
   \<and> effects (showRestoreDialog (example_env False True (Returned True)) example_backup
                accessible_init) =
       [Confirm (RestorePrompt (JNum 2.34) 2 1 0), Confirm (DiscardPrompt (JNum 2.34) 2 1 0),
        State_clearRouteBackup, ShowSuccessMessage ''Route data discarded. Starting fresh.'']
   \<and> result (showRestoreDialog (example_env False True (Returned True)) example_backup
               accessible_init) = Returned False
   \<and> effects (checkForBackupRoute (example_env False True (Returned True))
                (Returned example_backup) enhanced_init) =
       [State_checkForUnsavedRoute, Confirm (BackupFoundPrompt 2 1 0), State_clearRouteBackup]"
  using reject_and_discard_clears
    [of "example_env False True (Returned True)" example_backup "JNum 2.34" 2 1 0
        accessible_init 2 1 0 enhanced_init]
  by (simp add: restore_summary_example backup_summary_example example_backup_object
      example_env_def showRestoreDialog_def restore_decision_def)







end
